theory Spec2Isabelle
  imports Main
begin

section \<open>Cluster health probing and status reconciliation\<close>

text \<open>
  A shallow embedding of \<^verbatim>\<open>controllers/clusterclient.go\<close>, of the reconciler that
  follows it in the same package, and of the API types of \<^verbatim>\<open>api/v1\<close>.
  Go strings and byte slices are \<open>string\<close> (a list of 8-bit characters). A Go pointer
  that may be nil is an \<open>option\<close>; a Go \<^verbatim>\<open>error\<close> return is an \<open>error option\<close>
  (\<open>None\<close> is nil), and a pair (value, error) of which exactly one is set is a sum
  (\<open>Inl\<close> the error).
\<close>

subsection \<open>Errors\<close>

text \<open>
  \<open>Errorf\<close> is an error made by \<^verbatim>\<open>errors.Errorf\<close>, carrying the formatted message.
  \<open>NotFound\<close> and \<open>Conflict\<close> are the API status errors that
  \<^verbatim>\<open>apierrors.IsNotFound\<close> and \<^verbatim>\<open>apierrors.IsConflict\<close> recognise; \<open>Failure\<close> is
  any other error of a collaborator (store, transport, client construction).
\<close>

datatype error = Errorf string | NotFound | Conflict | Failure string

fun IsNotFound :: "error \<Rightarrow> bool" where
  "IsNotFound NotFound = True"
| "IsNotFound _ = False"

fun IsConflict :: "error \<Rightarrow> bool" where
  "IsConflict Conflict = True"
| "IsConflict _ = False"

definition IgnoreNotFound :: "error \<Rightarrow> error option" where
  "IgnoreNotFound err = (if IsNotFound err then None else Some err)"

subsection \<open>API types\<close>

type_synonym Time = nat

type_synonym ClusterConditionType = string

definition common_ClusterReady :: ClusterConditionType where
  "common_ClusterReady = ''Ready''"

definition common_ClusterOffline :: ClusterConditionType where
  "common_ClusterOffline = ''Offline''"

definition common_ClusterConfigMalformed :: ClusterConditionType where
  "common_ClusterConfigMalformed = ''ConfigMalformed''"

type_synonym ConditionStatus = string

definition ConditionTrue :: ConditionStatus where
  "ConditionTrue = ''True''"

definition ConditionFalse :: ConditionStatus where
  "ConditionFalse = ''False''"

record LocalSecretReference =
  Name :: string

record FederatedClusterSpec =
  APIEndpoint :: string
  CABundle :: string
  SecretRef :: LocalSecretReference

record ClusterCondition =
  Type :: ClusterConditionType
  Status :: ConditionStatus
  LastProbeTime :: Time
  LastTransitionTime :: "Time option"
  Reason :: "string option"
  Message :: "string option"

record FederatedClusterStatus =
  Conditions :: "ClusterCondition list"

text \<open>The fields of the embedded \<^verbatim>\<open>metav1.ObjectMeta\<close> that the code reads.\<close>

record FederatedCluster =
  Name :: string
  Namespace :: string
  Spec :: FederatedClusterSpec
  Status :: FederatedClusterStatus

record NamespacedName =
  Namespace :: string
  Name :: string

record Secret =
  Data :: "string \<rightharpoonup> string"

subsection \<open>Constants of the controller\<close>

definition UserAgentName :: string where
  "UserAgentName = ''Cluster-Controller''"

definition KubeAPIQPS :: nat where
  "KubeAPIQPS = 20"

definition KubeAPIBurst :: nat where
  "KubeAPIBurst = 30"

definition TokenKey :: string where
  "TokenKey = ''token''"

definition ClusterReady :: string where
  "ClusterReady = ''ClusterReady''"

definition HealthzOk :: string where
  "HealthzOk = ''/healthz responded with ok''"

definition ClusterNotReady :: string where
  "ClusterNotReady = ''ClusterNotReady''"

definition HealthzNotOk :: string where
  "HealthzNotOk = ''/healthz responded without ok''"

definition ClusterNotReachableReason :: string where
  "ClusterNotReachableReason = ''ClusterNotReachable''"

definition ClusterNotReachableMsg :: string where
  "ClusterNotReachableMsg = ''cluster is not reachable''"

definition ClusterReachableReason :: string where
  "ClusterReachableReason = ''ClusterReachable''"

definition ClusterReachableMsg :: string where
  "ClusterReachableMsg = ''cluster is reachable''"

definition ClusterConfigMalformedReason :: string where
  "ClusterConfigMalformedReason = ''ClusterConfigMalformed''"

definition ClusterConfigMalformedMsg :: string where
  "ClusterConfigMalformedMsg = ''cluster's configuration may be malformed''"

text \<open>\<^verbatim>\<open>time.Second\<close>, a \<^verbatim>\<open>time.Duration\<close> in nanoseconds.\<close>

definition Second :: int where
  "Second = 1000000000"

subsection \<open>Collaborators\<close>

text \<open>
  \<open>Config\<close> holds the fields of \<^verbatim>\<open>restclient.Config\<close> that the code writes.
  A \<open>Clientset\<close> is the handle that \<^verbatim>\<open>kubeclientset.NewForConfig\<close> returns.
\<close>

record Config =
  Host :: string
  CAData :: string
  BearerToken :: string
  QPS :: nat
  Burst :: nat
  Timeout :: int

datatype Clientset = Clientset Config

text \<open>
  The controller-runtime client of the reconciler: reading a cluster object, reading a
  secret, and the status writer's \<^verbatim>\<open>Update\<close>, each answering as the object store does.
\<close>

record Client =
  GetFederatedCluster :: "NamespacedName \<Rightarrow> error + FederatedCluster"
  GetSecret :: "NamespacedName \<Rightarrow> error + Secret"
  StatusUpdate :: "FederatedCluster \<Rightarrow> error option"

text \<open>
  What the code calls outside this repository and outside the object store: the clock
  (\<^verbatim>\<open>metav1.Now\<close>), \<^verbatim>\<open>strings.EqualFold\<close>, \<^verbatim>\<open>clientcmd.BuildConfigFromFlags\<close>,
  \<^verbatim>\<open>restclient.AddUserAgent\<close>, \<^verbatim>\<open>kubeclientset.NewForConfig\<close>, and the request
  \<^verbatim>\<open>RESTClient().Get().AbsPath(path).Do(ctx).Raw()\<close> on a clientset. They are
  parameters of the model: every theorem holds for whatever they answer.
\<close>

record Library =
  Now :: Time
  EqualFold :: "string \<Rightarrow> string \<Rightarrow> bool"
  BuildConfigFromFlags :: "string \<Rightarrow> string \<Rightarrow> error + Config"
  AddUserAgent :: "Config \<Rightarrow> string \<Rightarrow> Config"
  NewForConfig :: "Config \<Rightarrow> error + Clientset"
  GetRaw :: "Clientset \<Rightarrow> string \<Rightarrow> error + string"

subsection \<open>Building the client\<close>

record ClusterClient =
  kubeClient :: "Clientset option"
  clusterName :: string

definition buildClusterConfig :: "Library \<Rightarrow> FederatedCluster \<Rightarrow> Client \<Rightarrow> error + Config" where
  "buildClusterConfig lib fedCluster client =
     (let clusterName = FederatedCluster.Name fedCluster;
          apiEndpoint = APIEndpoint (Spec fedCluster)
      in if apiEndpoint = [] then
           Inl (Errorf (''The api endpoint of cluster '' @ clusterName @ '' is empty''))
         else
           let secretName = LocalSecretReference.Name (SecretRef (Spec fedCluster))
           in if secretName = [] then
                Inl (Errorf (''Cluster '' @ clusterName @ '' does not have a secret name''))
              else
                let keyObj = \<lparr>Namespace = FederatedCluster.Namespace fedCluster,
                              Name = LocalSecretReference.Name (SecretRef (Spec fedCluster))\<rparr>
                in case GetSecret client keyObj of
                     Inl err \<Rightarrow> Inl err
                   | Inr secret \<Rightarrow>
                       (case Data secret TokenKey of
                          None \<Rightarrow>
                            Inl (Errorf (''The secret for cluster '' @ clusterName
                              @ '' is missing a non-empty value for ''
                              @ [CHR 0x22] @ TokenKey @ [CHR 0x22]))
                        | Some token \<Rightarrow>
                            if length token = 0 then
                              Inl (Errorf (''The secret for cluster '' @ clusterName
                                @ '' is missing a non-empty value for ''
                                @ [CHR 0x22] @ TokenKey @ [CHR 0x22]))
                            else
                              (case BuildConfigFromFlags lib apiEndpoint [] of
                                 Inl err \<Rightarrow> Inl err
                               | Inr clusterConfig \<Rightarrow>
                                   Inr (clusterConfig
                                     \<lparr>CAData := CABundle (Spec fedCluster),
                                      BearerToken := token,
                                      QPS := KubeAPIQPS,
                                      Burst := KubeAPIBurst\<rparr>))))"

text \<open>
  \<open>NewClusterClientSet\<close> returns the address of its \<^verbatim>\<open>clusterClientSet\<close> on every
  path, so the first component is the client itself; its \<open>kubeClient\<close> stays nil
  unless \<^verbatim>\<open>NewForConfig\<close> succeeds.
\<close>

definition NewClusterClientSet ::
    "Library \<Rightarrow> FederatedCluster \<Rightarrow> Client \<Rightarrow> int \<Rightarrow> ClusterClient \<times> error option" where
  "NewClusterClientSet lib c client timeout =
     (let clusterClientSet = \<lparr>kubeClient = None, clusterName = FederatedCluster.Name c\<rparr>
      in case buildClusterConfig lib c client of
           Inl err \<Rightarrow> (clusterClientSet, Some err)
         | Inr clusterConfig \<Rightarrow>
             (case NewForConfig lib
                     (AddUserAgent lib (clusterConfig\<lparr>Timeout := timeout\<rparr>) UserAgentName) of
                Inl err \<Rightarrow> (clusterClientSet\<lparr>kubeClient := None\<rparr>, Some err)
              | Inr cs \<Rightarrow> (clusterClientSet\<lparr>kubeClient := Some cs\<rparr>, None)))"

subsection \<open>The health probe\<close>

text \<open>
  \<open>GetClusterHealthStatus\<close> returns a pointer to its status (an \<open>option\<close>) and an
  error. The call of \<^verbatim>\<open>runtime.HandleError\<close> on a failed request only reports the
  error to the process's handlers and does not change what is returned.
\<close>

definition GetClusterHealthStatus ::
    "Library \<Rightarrow> ClusterClient \<Rightarrow> FederatedClusterStatus option \<times> error option" where
  "GetClusterHealthStatus lib c =
     (let clusterStatus = \<lparr>Conditions = []\<rparr>;
          currentTime = Now lib;
          newClusterReadyCondition =
            \<lparr>Type = common_ClusterReady, Status = ConditionTrue,
             LastProbeTime = currentTime, LastTransitionTime = Some currentTime,
             Reason = Some ClusterReady, Message = Some HealthzOk\<rparr>;
          newClusterNotReadyCondition =
            \<lparr>Type = common_ClusterReady, Status = ConditionFalse,
             LastProbeTime = currentTime, LastTransitionTime = Some currentTime,
             Reason = Some ClusterNotReady, Message = Some HealthzNotOk\<rparr>;
          newClusterOfflineCondition =
            \<lparr>Type = common_ClusterOffline, Status = ConditionTrue,
             LastProbeTime = currentTime, LastTransitionTime = Some currentTime,
             Reason = Some ClusterNotReachableReason, Message = Some ClusterNotReachableMsg\<rparr>;
          newClusterNotOfflineCondition =
            \<lparr>Type = common_ClusterOffline, Status = ConditionFalse,
             LastProbeTime = currentTime, LastTransitionTime = Some currentTime,
             Reason = Some ClusterReachableReason, Message = Some ClusterReachableMsg\<rparr>;
          newClusterConfigMalformedCondition =
            \<lparr>Type = common_ClusterConfigMalformed, Status = ConditionTrue,
             LastProbeTime = currentTime, LastTransitionTime = Some currentTime,
             Reason = Some ClusterConfigMalformedReason,
             Message = Some ClusterConfigMalformedMsg\<rparr>
      in case kubeClient c of
           None \<Rightarrow>
             (Some (clusterStatus\<lparr>Conditions :=
                Conditions clusterStatus @ [newClusterConfigMalformedCondition]\<rparr>), None)
         | Some cs \<Rightarrow>
             (case GetRaw lib cs ''/healthz'' of
                Inl err \<Rightarrow>
                  (Some (clusterStatus\<lparr>Conditions :=
                     Conditions clusterStatus @ [newClusterOfflineCondition]\<rparr>), Some err)
              | Inr body \<Rightarrow>
                  if \<not> EqualFold lib body ''ok'' then
                    (Some (clusterStatus\<lparr>Conditions :=
                       Conditions clusterStatus
                         @ [newClusterNotReadyCondition, newClusterNotOfflineCondition]\<rparr>), None)
                  else
                    (Some (clusterStatus\<lparr>Conditions :=
                       Conditions clusterStatus @ [newClusterReadyCondition]\<rparr>), None)))"

subsection \<open>The reconciler\<close>

text \<open>
  \<^verbatim>\<open>reflect.DeepEqual\<close> takes two values of any type and compares their dynamic types
  first: values of distinct types are never deeply equal. \<open>GoValue\<close> holds the two
  kinds of value the reconciler passes: a pointer to a status and a status struct.
  Values of one type are compared by their contents.
\<close>

datatype GoValue =
    StatusPointer "FederatedClusterStatus option"
  | StatusStruct FederatedClusterStatus

fun DeepEqual :: "GoValue \<Rightarrow> GoValue \<Rightarrow> bool" where
  "DeepEqual (StatusPointer p) (StatusPointer q) = (p = q)"
| "DeepEqual (StatusStruct x) (StatusStruct y) = (x = y)"
| "DeepEqual (StatusPointer p) (StatusStruct y) = False"
| "DeepEqual (StatusStruct x) (StatusPointer q) = False"

record Result =
  Requeue :: bool
  RequeueAfter :: int

datatype panic = NilPointerDereference

text \<open>
  What one call of \<open>Reconcile\<close> leaves behind: the returned pair, the messages passed
  to \<^verbatim>\<open>log.Info\<close> in order, and the objects handed to the status writer's
  \<^verbatim>\<open>Update\<close> in order.
\<close>

record Returned =
  result :: Result
  err :: "error option"
  logged :: "string list"
  updates :: "FederatedCluster list"

definition Reconcile :: "Library \<Rightarrow> Client \<Rightarrow> NamespacedName \<Rightarrow> panic + Returned" where
  "Reconcile lib r req =
     (case GetFederatedCluster r req of
        Inl e \<Rightarrow>
          Inr \<lparr>result = \<lparr>Requeue = False, RequeueAfter = 0\<rparr>, err = IgnoreNotFound e,
               logged = [''Failed to get FederatedCluster''], updates = []\<rparr>
      | Inr federatedCluster \<Rightarrow>
          (case NewClusterClientSet lib federatedCluster r (Second * 5) of
             (clusterClient, Some e) \<Rightarrow>
               Inr \<lparr>result = \<lparr>Requeue = False, RequeueAfter = 0\<rparr>, err = Some e,
                    logged = [''Failed to generate new clusterset''], updates = []\<rparr>
           | (clusterClient, None) \<Rightarrow>
               (case GetClusterHealthStatus lib clusterClient of
                  (clusterStatus, e) \<Rightarrow>
                    let log1 = (if e \<noteq> None then [''Failed to get cluster status''] else [])
                    in if \<not> DeepEqual (StatusPointer clusterStatus)
                               (StatusStruct (FederatedCluster.Status federatedCluster)) then
                         (case clusterStatus of
                            None \<Rightarrow> Inl NilPointerDereference
                          | Some s \<Rightarrow>
                              let federatedCluster' =
                                    federatedCluster\<lparr>FederatedCluster.Status := s\<rparr>
                              in (case StatusUpdate r federatedCluster' of
                                   Some ue \<Rightarrow>
                                     if IsConflict ue then
                                       Inr \<lparr>result = \<lparr>Requeue = True, RequeueAfter = 0\<rparr>,
                                            err = None, logged = log1,
                                            updates = [federatedCluster']\<rparr>
                                     else
                                       Inr \<lparr>result = \<lparr>Requeue = False, RequeueAfter = 0\<rparr>,
                                            err = None,
                                            logged = log1 @ [''Failed to update cluster status'',
                                              ''Success to update cluster status''],
                                            updates = [federatedCluster']\<rparr>
                                 | None \<Rightarrow>
                                     Inr \<lparr>result = \<lparr>Requeue = False, RequeueAfter = 0\<rparr>,
                                          err = None,
                                          logged = log1 @ [''Success to update cluster status''],
                                          updates = [federatedCluster']\<rparr>))
                       else
                         Inr \<lparr>result = \<lparr>Requeue = False, RequeueAfter = 0\<rparr>, err = None,
                              logged = log1, updates = []\<rparr>)))"

subsection \<open>Concrete collaborators\<close>

text \<open>
  Inputs on which the model is evaluated. \<open>exampleLibrary answer\<close> is a library whose
  clock reads 1000, whose \<open>EqualFold\<close> compares ASCII letters without regard to case,
  whose client construction always succeeds, and whose request to the member cluster
  returns \<open>answer\<close>. \<open>exampleClient stored answer\<close> is an object store that holds the
  cluster \<open>stored\<close> under \<open>federation/member1\<close> and a secret with the token \<open>abc\<close>
  under \<open>federation/member1-secret\<close>, and answers every status update with \<open>answer\<close>.
\<close>

definition asciiLower :: "char \<Rightarrow> char" where
  "asciiLower ch =
     (case map_of (zip ''ABCDEFGHIJKLMNOPQRSTUVWXYZ'' ''abcdefghijklmnopqrstuvwxyz'') ch of
        None \<Rightarrow> ch | Some l \<Rightarrow> l)"

definition exampleConfig :: Config where
  "exampleConfig =
     \<lparr>Host = [], CAData = [], BearerToken = [], QPS = 0, Burst = 0, Timeout = 0\<rparr>"

definition exampleLibrary :: "(error + string) \<Rightarrow> Library" where
  "exampleLibrary answer =
     \<lparr>Now = 1000,
      EqualFold = (\<lambda>s t. map asciiLower s = map asciiLower t),
      BuildConfigFromFlags = (\<lambda>masterUrl kubeconfigPath. Inr (exampleConfig\<lparr>Host := masterUrl\<rparr>)),
      AddUserAgent = (\<lambda>config userAgent. config),
      NewForConfig = (\<lambda>config. Inr (Clientset config)),
      GetRaw = (\<lambda>cs path. answer)\<rparr>"

definition exampleCluster :: "string \<Rightarrow> ClusterCondition list \<Rightarrow> FederatedCluster" where
  "exampleCluster endpoint conds =
     \<lparr>FederatedCluster.Name = ''member1'', FederatedCluster.Namespace = ''federation'',
      Spec = \<lparr>APIEndpoint = endpoint, CABundle = [],
              SecretRef = \<lparr>LocalSecretReference.Name = ''member1-secret''\<rparr>\<rparr>,
      FederatedCluster.Status = \<lparr>Conditions = conds\<rparr>\<rparr>"

definition exampleRequest :: NamespacedName where
  "exampleRequest = \<lparr>Namespace = ''federation'', Name = ''member1''\<rparr>"

definition exampleClient :: "FederatedCluster \<Rightarrow> error option \<Rightarrow> Client" where
  "exampleClient stored answer =
     \<lparr>GetFederatedCluster =
        (\<lambda>key. if key = exampleRequest then Inr stored else Inl NotFound),
      GetSecret =
        (\<lambda>key. if key = \<lparr>Namespace = ''federation'', Name = ''member1-secret''\<rparr>
              then Inr \<lparr>Data = [''token'' \<mapsto> ''abc'']\<rparr> else Inl NotFound),
      StatusUpdate = (\<lambda>obj. answer)\<rparr>"

definition exampleReady :: ClusterCondition where
  "exampleReady =
     \<lparr>Type = ''Ready'', Status = ''True'', LastProbeTime = 1000,
      LastTransitionTime = Some 1000, Reason = Some ''ClusterReady'',
      Message = Some ''/healthz responded with ok''\<rparr>"

section \<open>Properties\<close>

lemmas condition_defs =
  common_ClusterReady_def common_ClusterOffline_def common_ClusterConfigMalformed_def
  ConditionTrue_def ConditionFalse_def ClusterReady_def HealthzOk_def ClusterNotReady_def
  HealthzNotOk_def ClusterNotReachableReason_def ClusterNotReachableMsg_def
  ClusterReachableReason_def ClusterReachableMsg_def ClusterConfigMalformedReason_def
  ClusterConfigMalformedMsg_def

lemmas probe_defs = GetClusterHealthStatus_def Let_def condition_defs

lemmas example_defs =
  asciiLower_def exampleConfig_def exampleLibrary_def exampleCluster_def exampleRequest_def
  exampleClient_def exampleReady_def

lemmas build_defs =
  buildClusterConfig_def NewClusterClientSet_def TokenKey_def KubeAPIQPS_def KubeAPIBurst_def
  UserAgentName_def Second_def

subsection \<open>The health probe\<close>

text \<open>
  Claim C3, as the code has it: when the health check is invoked on a client whose
  underlying \<open>kubeClient\<close> is nil, it returns a status with exactly one condition,
  ConfigMalformed = True with reason ClusterConfigMalformed and the message
  "cluster's configuration may be malformed", and a nil error. The error of the failed
  construction stays with \<open>NewClusterClientSet\<close>; the health check does not return it.
\<close>

theorem probe_without_client:
  "kubeClient c = None \<Longrightarrow>
   GetClusterHealthStatus lib c =
     (Some \<lparr>Conditions =
        [\<lparr>Type = ''ConfigMalformed'', Status = ''True'',
          LastProbeTime = Now lib, LastTransitionTime = Some (Now lib),
          Reason = Some ''ClusterConfigMalformed'',
          Message = Some ''cluster's configuration may be malformed''\<rparr>]\<rparr>, None)"
  by (simp add: GetClusterHealthStatus_def Let_def condition_defs)

text \<open>
  The theorem of C3 at a client without a clientset.
\<close>

theorem probe_without_client_witness:
  "GetClusterHealthStatus (exampleLibrary (Inr ''ok''))
       \<lparr>kubeClient = None, clusterName = ''member1''\<rparr> =
     (Some \<lparr>Conditions =
        [\<lparr>Type = ''ConfigMalformed'', Status = ''True'',
          LastProbeTime = 1000, LastTransitionTime = Some 1000,
          Reason = Some ''ClusterConfigMalformed'',
          Message = Some ''cluster's configuration may be malformed''\<rparr>]\<rparr>, None)"
  using probe_without_client
          [of "\<lparr>kubeClient = None, clusterName = ''member1''\<rparr>" "exampleLibrary (Inr ''ok'')"]
  by (simp add: exampleLibrary_def)

text \<open>
  Claim C3 as stated pairs the ConfigMalformed status with the construction error.
  For a cluster with an empty endpoint the construction fails with an error and leaves
  the \<open>kubeClient\<close> nil, and the health check on that client returns a nil error.
\<close>

theorem probe_without_client_drops_error:
  "NewClusterClientSet (exampleLibrary (Inr ''ok'')) (exampleCluster [] [])
       (exampleClient (exampleCluster [] []) None) (Second * 5) =
     (\<lparr>kubeClient = None, clusterName = ''member1''\<rparr>,
      Some (Errorf ''The api endpoint of cluster member1 is empty'')) \<and>
   snd (GetClusterHealthStatus (exampleLibrary (Inr ''ok''))
          (fst (NewClusterClientSet (exampleLibrary (Inr ''ok'')) (exampleCluster [] [])
                  (exampleClient (exampleCluster [] []) None) (Second * 5)))) = None"
  by (simp add: example_defs build_defs probe_defs)

text \<open>
  Claim C4: when the request to /healthz succeeds and \<^verbatim>\<open>strings.EqualFold\<close> finds the
  body equal to "ok", the status holds exactly one condition, Ready = True with reason
  ClusterReady and the message "/healthz responded with ok", and the error is nil.
\<close>

theorem probe_ok:
  "kubeClient c = Some cs \<Longrightarrow> GetRaw lib cs ''/healthz'' = Inr body \<Longrightarrow>
   EqualFold lib body ''ok'' \<Longrightarrow>
   GetClusterHealthStatus lib c =
     (Some \<lparr>Conditions =
        [\<lparr>Type = ''Ready'', Status = ''True'',
          LastProbeTime = Now lib, LastTransitionTime = Some (Now lib),
          Reason = Some ''ClusterReady'',
          Message = Some ''/healthz responded with ok''\<rparr>]\<rparr>, None)"
  by (simp add: GetClusterHealthStatus_def Let_def condition_defs)

text \<open>
  The theorem of C4 at the body "OK".
\<close>

theorem probe_ok_witness:
  "GetClusterHealthStatus (exampleLibrary (Inr ''OK''))
       \<lparr>kubeClient = Some (Clientset exampleConfig), clusterName = ''member1''\<rparr> =
     (Some \<lparr>Conditions =
        [\<lparr>Type = ''Ready'', Status = ''True'',
          LastProbeTime = 1000, LastTransitionTime = Some 1000,
          Reason = Some ''ClusterReady'',
          Message = Some ''/healthz responded with ok''\<rparr>]\<rparr>, None)"
  using probe_ok
          [of "\<lparr>kubeClient = Some (Clientset exampleConfig), clusterName = ''member1''\<rparr>"
              "Clientset exampleConfig" "exampleLibrary (Inr ''OK'')" "''OK''"]
  by (simp add: exampleLibrary_def asciiLower_def)

text \<open>
  Claim C5: when the request to /healthz succeeds and the body is not equal to "ok"
  under \<^verbatim>\<open>strings.EqualFold\<close>, the status holds exactly two conditions in this order:
  Ready = False with reason ClusterNotReady and the message "/healthz responded without
  ok", then Offline = False with reason ClusterReachable and the message "cluster is
  reachable".
\<close>

theorem probe_not_ok:
  "kubeClient c = Some cs \<Longrightarrow> GetRaw lib cs ''/healthz'' = Inr body \<Longrightarrow>
   \<not> EqualFold lib body ''ok'' \<Longrightarrow>
   fst (GetClusterHealthStatus lib c) =
     Some \<lparr>Conditions =
        [\<lparr>Type = ''Ready'', Status = ''False'',
          LastProbeTime = Now lib, LastTransitionTime = Some (Now lib),
          Reason = Some ''ClusterNotReady'',
          Message = Some ''/healthz responded without ok''\<rparr>,
         \<lparr>Type = ''Offline'', Status = ''False'',
          LastProbeTime = Now lib, LastTransitionTime = Some (Now lib),
          Reason = Some ''ClusterReachable'',
          Message = Some ''cluster is reachable''\<rparr>]\<rparr>"
  by (simp add: GetClusterHealthStatus_def Let_def condition_defs)

text \<open>
  The theorem of C5 at the body "degraded".
\<close>

theorem probe_not_ok_witness:
  "map (\<lambda>cond. (Type cond, ClusterCondition.Status cond))
     (Conditions (the (fst (GetClusterHealthStatus (exampleLibrary (Inr ''degraded''))
        \<lparr>kubeClient = Some (Clientset exampleConfig), clusterName = ''member1''\<rparr>)))) =
     [(''Ready'', ''False''), (''Offline'', ''False'')]"
  using probe_not_ok
          [of "\<lparr>kubeClient = Some (Clientset exampleConfig), clusterName = ''member1''\<rparr>"
              "Clientset exampleConfig" "exampleLibrary (Inr ''degraded'')" "''degraded''"]
  by (simp add: exampleLibrary_def asciiLower_def)

text \<open>
  Claim C6: when the request to /healthz fails, the status holds exactly one condition,
  Offline = True with reason ClusterNotReachable and the message "cluster is not
  reachable", and the error of the request is returned with it.
\<close>

theorem probe_unreachable:
  "kubeClient c = Some cs \<Longrightarrow> GetRaw lib cs ''/healthz'' = Inl e \<Longrightarrow>
   GetClusterHealthStatus lib c =
     (Some \<lparr>Conditions =
        [\<lparr>Type = ''Offline'', Status = ''True'',
          LastProbeTime = Now lib, LastTransitionTime = Some (Now lib),
          Reason = Some ''ClusterNotReachable'',
          Message = Some ''cluster is not reachable''\<rparr>]\<rparr>, Some e)"
  by (simp add: GetClusterHealthStatus_def Let_def condition_defs)

text \<open>
  The theorem of C6 at a request that times out.
\<close>

theorem probe_unreachable_witness:
  "GetClusterHealthStatus (exampleLibrary (Inl (Failure ''i/o timeout'')))
       \<lparr>kubeClient = Some (Clientset exampleConfig), clusterName = ''member1''\<rparr> =
     (Some \<lparr>Conditions =
        [\<lparr>Type = ''Offline'', Status = ''True'',
          LastProbeTime = 1000, LastTransitionTime = Some 1000,
          Reason = Some ''ClusterNotReachable'',
          Message = Some ''cluster is not reachable''\<rparr>]\<rparr>, Some (Failure ''i/o timeout''))"
  using probe_unreachable
          [of "\<lparr>kubeClient = Some (Clientset exampleConfig), clusterName = ''member1''\<rparr>"
              "Clientset exampleConfig" "exampleLibrary (Inl (Failure ''i/o timeout''))"
              "Failure ''i/o timeout''"]
  by (simp add: exampleLibrary_def)

text \<open>
  Claim C9: the health check always returns a status, and every condition in it carries
  the one reading of the clock taken at the start of the call, both as its
  \<open>LastProbeTime\<close> and as its \<open>LastTransitionTime\<close>.
\<close>

theorem probe_single_timestamp:
  "\<exists>s. fst (GetClusterHealthStatus lib c) = Some s \<and>
       (\<forall>cond \<in> set (Conditions s).
          LastProbeTime cond = Now lib \<and> LastTransitionTime cond = Some (Now lib))"
  by (simp add: GetClusterHealthStatus_def Let_def split: option.split sum.split)

text \<open>
  The theorem of C9 at a probe that returns two conditions.
\<close>

theorem probe_single_timestamp_witness:
  "map (\<lambda>cond. (LastProbeTime cond, LastTransitionTime cond))
     (Conditions (the (fst (GetClusterHealthStatus (exampleLibrary (Inr ''degraded''))
        \<lparr>kubeClient = Some (Clientset exampleConfig), clusterName = ''member1''\<rparr>)))) =
     [(1000, Some 1000), (1000, Some 1000)]"
  using probe_single_timestamp
          [of "exampleLibrary (Inr ''degraded'')"
              "\<lparr>kubeClient = Some (Clientset exampleConfig), clusterName = ''member1''\<rparr>"]
  by (simp add: exampleLibrary_def asciiLower_def probe_defs)

text \<open>
  Claim C10: on every path the health check returns a non-nil status with one or two
  conditions whose types are pairwise distinct, and its error is non-nil exactly when
  the status is the single condition Offline = True.
\<close>

theorem probe_shape:
  "\<exists>s. fst (GetClusterHealthStatus lib c) = Some s \<and>
       1 \<le> length (Conditions s) \<and> length (Conditions s) \<le> 2 \<and>
       distinct (map Type (Conditions s)) \<and>
       ((snd (GetClusterHealthStatus lib c) \<noteq> None) =
        (\<exists>cond. Conditions s = [cond] \<and> Type cond = ''Offline'' \<and> ClusterCondition.Status cond = ''True''))"
  by (simp add: GetClusterHealthStatus_def Let_def condition_defs split: option.split sum.split)

subsection \<open>Building the client\<close>

text \<open>
  What \<open>buildClusterConfig\<close> returns at each of its checks, and what
  \<open>NewClusterClientSet\<close> makes of a failed configuration.
\<close>

lemma build_empty_endpoint:
  "APIEndpoint (Spec c) = [] \<Longrightarrow>
   buildClusterConfig lib c client =
     Inl (Errorf (''The api endpoint of cluster '' @ FederatedCluster.Name c @ '' is empty''))"
  by (simp add: buildClusterConfig_def)

lemma build_empty_secret_name:
  "APIEndpoint (Spec c) \<noteq> [] \<Longrightarrow> LocalSecretReference.Name (SecretRef (Spec c)) = [] \<Longrightarrow>
   buildClusterConfig lib c client =
     Inl (Errorf (''Cluster '' @ FederatedCluster.Name c @ '' does not have a secret name''))"
  by (simp add: buildClusterConfig_def)

lemma build_secret_error:
  "APIEndpoint (Spec c) \<noteq> [] \<Longrightarrow> LocalSecretReference.Name (SecretRef (Spec c)) \<noteq> [] \<Longrightarrow>
   GetSecret client \<lparr>Namespace = FederatedCluster.Namespace c,
                      Name = LocalSecretReference.Name (SecretRef (Spec c))\<rparr> = Inl e \<Longrightarrow>
   buildClusterConfig lib c client = Inl e"
  by (simp add: buildClusterConfig_def)

lemma build_missing_token:
  "APIEndpoint (Spec c) \<noteq> [] \<Longrightarrow> LocalSecretReference.Name (SecretRef (Spec c)) \<noteq> [] \<Longrightarrow>
   GetSecret client \<lparr>Namespace = FederatedCluster.Namespace c,
                      Name = LocalSecretReference.Name (SecretRef (Spec c))\<rparr> = Inr secret \<Longrightarrow>
   Data secret ''token'' = None \<or> Data secret ''token'' = Some [] \<Longrightarrow>
   buildClusterConfig lib c client =
     Inl (Errorf (''The secret for cluster '' @ FederatedCluster.Name c
       @ '' is missing a non-empty value for '' @ [CHR 0x22] @ ''token'' @ [CHR 0x22]))"
  by (auto simp add: buildClusterConfig_def TokenKey_def)

lemma build_proceeds:
  "APIEndpoint (Spec c) \<noteq> [] \<Longrightarrow> LocalSecretReference.Name (SecretRef (Spec c)) \<noteq> [] \<Longrightarrow>
   GetSecret client \<lparr>Namespace = FederatedCluster.Namespace c,
                      Name = LocalSecretReference.Name (SecretRef (Spec c))\<rparr> = Inr secret \<Longrightarrow>
   Data secret ''token'' = Some token \<Longrightarrow> token \<noteq> [] \<Longrightarrow>
   buildClusterConfig lib c client =
     (case BuildConfigFromFlags lib (APIEndpoint (Spec c)) [] of
        Inl e \<Rightarrow> Inl e
      | Inr clusterConfig \<Rightarrow>
          Inr (clusterConfig\<lparr>CAData := CABundle (Spec c), BearerToken := token,
                 QPS := 20, Burst := 30\<rparr>))"
  by (simp add: buildClusterConfig_def TokenKey_def KubeAPIQPS_def KubeAPIBurst_def
      split: sum.split)

lemma NewClusterClientSet_config_error:
  "buildClusterConfig lib c client = Inl e \<Longrightarrow>
   NewClusterClientSet lib c client timeout =
     (\<lparr>kubeClient = None, clusterName = FederatedCluster.Name c\<rparr>, Some e)"
  by (simp add: NewClusterClientSet_def)

text \<open>
  Claim C7: the checks of \<open>buildClusterConfig\<close> reject a descriptor exactly when its
  \<open>apiEndpoint\<close> is empty, its \<open>secretRef.name\<close> is empty, the lookup of the secret
  under (namespace, secretRef.name) returns an error, or the secret's "token" field is
  absent or empty. \<open>unusable\<close> below is this condition. When it holds, the
  construction fails with one error whatever the libraries answer, and
  \<open>NewClusterClientSet\<close> returns that error and a client whose \<open>kubeClient\<close> is nil.
  When it does not hold, all checks pass and the construction proceeds: the result is
  that of \<^verbatim>\<open>BuildConfigFromFlags\<close> on the endpoint, with the CA bundle, the token and the
  rate limits filled in. So the construction fails for every answer of the libraries
  exactly when \<open>unusable\<close> holds.
\<close>

theorem buildClusterConfig_failure_cases:
  fixes fedCluster :: FederatedCluster and client :: Client
  defines "keyObj \<equiv> \<lparr>Namespace = FederatedCluster.Namespace fedCluster,
                       Name = LocalSecretReference.Name (SecretRef (Spec fedCluster))\<rparr>"
  defines "unusable \<equiv>
     (APIEndpoint (Spec fedCluster) = [] \<or>
      LocalSecretReference.Name (SecretRef (Spec fedCluster)) = [] \<or>
      (case GetSecret client keyObj of
         Inl e \<Rightarrow> True
       | Inr secret \<Rightarrow> Data secret ''token'' = None \<or> Data secret ''token'' = Some []))"
  shows
    "((\<forall>lib. isl (buildClusterConfig lib fedCluster client)) = unusable) \<and>
     (unusable \<longrightarrow>
        (\<exists>e. \<forall>lib. buildClusterConfig lib fedCluster client = Inl e \<and>
           NewClusterClientSet lib fedCluster client timeout =
             (\<lparr>kubeClient = None, clusterName = FederatedCluster.Name fedCluster\<rparr>, Some e))) \<and>
     (\<not> unusable \<longrightarrow>
        (\<exists>secret token. GetSecret client keyObj = Inr secret \<and>
           Data secret ''token'' = Some token \<and> token \<noteq> [] \<and>
           (\<forall>lib. buildClusterConfig lib fedCluster client =
              (case BuildConfigFromFlags lib (APIEndpoint (Spec fedCluster)) [] of
                 Inl e \<Rightarrow> Inl e
               | Inr clusterConfig \<Rightarrow>
                   Inr (clusterConfig\<lparr>CAData := CABundle (Spec fedCluster),
                          BearerToken := token, QPS := 20, Burst := 30\<rparr>)))))"
proof -
  have fails: "\<exists>e. \<forall>lib. buildClusterConfig lib fedCluster client = Inl e" if unusable
  proof (cases "APIEndpoint (Spec fedCluster) = []")
    case True
    then show ?thesis using build_empty_endpoint by blast
  next
    case endpoint: False
    show ?thesis
    proof (cases "LocalSecretReference.Name (SecretRef (Spec fedCluster)) = []")
      case True
      then show ?thesis using endpoint build_empty_secret_name by blast
    next
      case name: False
      show ?thesis
      proof (cases "GetSecret client keyObj")
        case (Inl e)
        then show ?thesis using endpoint name build_secret_error
          unfolding keyObj_def by blast
      next
        case (Inr secret)
        with that endpoint name
        have "Data secret ''token'' = None \<or> Data secret ''token'' = Some []"
          by (simp add: unusable_def)
        then show ?thesis using Inr endpoint name build_missing_token
          unfolding keyObj_def by blast
      qed
    qed
  qed
  have client_fails:
    "\<exists>e. \<forall>lib. buildClusterConfig lib fedCluster client = Inl e \<and>
       NewClusterClientSet lib fedCluster client timeout =
         (\<lparr>kubeClient = None, clusterName = FederatedCluster.Name fedCluster\<rparr>, Some e)"
    if unusable
    using fails [OF that] NewClusterClientSet_config_error by metis
  have proceeds:
    "\<exists>secret token. GetSecret client keyObj = Inr secret \<and>
        Data secret ''token'' = Some token \<and> token \<noteq> [] \<and>
        (\<forall>lib. buildClusterConfig lib fedCluster client =
           (case BuildConfigFromFlags lib (APIEndpoint (Spec fedCluster)) [] of
              Inl e \<Rightarrow> Inl e
            | Inr clusterConfig \<Rightarrow>
                Inr (clusterConfig\<lparr>CAData := CABundle (Spec fedCluster),
                       BearerToken := token, QPS := 20, Burst := 30\<rparr>)))"
    if "\<not> unusable"
  proof -
    from that have endpoint: "APIEndpoint (Spec fedCluster) \<noteq> []"
      and name: "LocalSecretReference.Name (SecretRef (Spec fedCluster)) \<noteq> []"
      by (simp_all add: unusable_def)
    from that obtain secret where secret: "GetSecret client keyObj = Inr secret"
      by (cases "GetSecret client keyObj") (simp_all add: unusable_def)
    with that obtain token where token: "Data secret ''token'' = Some token" "token \<noteq> []"
      by (cases "Data secret ''token''") (simp_all add: unusable_def)
    show ?thesis
      using build_proceeds [OF endpoint name secret [unfolded keyObj_def] token] secret token
      by blast
  qed
  have "\<not> isl (buildClusterConfig
          (\<lparr>Now = 0, EqualFold = (\<lambda>s t. False),
            BuildConfigFromFlags = (\<lambda>masterUrl kubeconfigPath.
              Inr \<lparr>Host = masterUrl, CAData = [], BearerToken = [], QPS = 0, Burst = 0,
                   Timeout = 0\<rparr>),
            AddUserAgent = (\<lambda>config userAgent. config),
            NewForConfig = (\<lambda>config. Inr (Clientset config)),
            GetRaw = (\<lambda>cs path. Inr [])\<rparr>) fedCluster client)"
    if "\<not> unusable"
    using proceeds [OF that] by auto
  then have "(\<forall>lib. isl (buildClusterConfig lib fedCluster client)) = unusable"
    using fails by auto
  then show ?thesis using client_fails proceeds by blast
qed

text \<open>
  The theorem of C7 at a usable descriptor and at one with an empty endpoint.
\<close>

theorem buildClusterConfig_failure_cases_witness:
  "buildClusterConfig (exampleLibrary (Inr ''ok'')) (exampleCluster ''https://10.0.0.1:6443'' [])
       (exampleClient (exampleCluster ''https://10.0.0.1:6443'' []) None) =
     Inr \<lparr>Host = ''https://10.0.0.1:6443'', CAData = [], BearerToken = ''abc'',
          QPS = 20, Burst = 30, Timeout = 0\<rparr> \<and>
   buildClusterConfig (exampleLibrary (Inr ''ok'')) (exampleCluster [] [])
       (exampleClient (exampleCluster [] []) None) =
     Inl (Errorf ''The api endpoint of cluster member1 is empty'')"
  using buildClusterConfig_failure_cases
          [of "exampleCluster ''https://10.0.0.1:6443'' []"
              "exampleClient (exampleCluster ''https://10.0.0.1:6443'' []) None"]
        buildClusterConfig_failure_cases
          [of "exampleCluster [] []" "exampleClient (exampleCluster [] []) None"]
  by (simp add: example_defs buildClusterConfig_def TokenKey_def KubeAPIQPS_def KubeAPIBurst_def)

subsection \<open>The reconciler\<close>

text \<open>
  The comparison in \<open>Reconcile\<close> is between a pointer to a status and a status
  struct, so it never reports equality: a pass that obtains a client and a status
  always hands the object with the new status to the status writer.
\<close>

lemma DeepEqual_pointer_struct: "\<not> DeepEqual (StatusPointer p) (StatusStruct s)"
  by simp

lemma Reconcile_reaches_update:
  assumes "GetFederatedCluster r req = Inr fc"
    and "NewClusterClientSet lib fc r (Second * 5) = (cc, None)"
    and "GetClusterHealthStatus lib cc = (Some s, pe)"
  shows "Reconcile lib r req =
     (let log1 = (if pe \<noteq> None then [''Failed to get cluster status''] else []);
          fc' = fc\<lparr>FederatedCluster.Status := s\<rparr>
      in case StatusUpdate r fc' of
           Some ue \<Rightarrow>
             if IsConflict ue then
               Inr \<lparr>result = \<lparr>Requeue = True, RequeueAfter = 0\<rparr>, err = None,
                    logged = log1, updates = [fc']\<rparr>
             else
               Inr \<lparr>result = \<lparr>Requeue = False, RequeueAfter = 0\<rparr>, err = None,
                    logged = log1 @ [''Failed to update cluster status'',
                      ''Success to update cluster status''],
                    updates = [fc']\<rparr>
         | None \<Rightarrow>
             Inr \<lparr>result = \<lparr>Requeue = False, RequeueAfter = 0\<rparr>, err = None,
                  logged = log1 @ [''Success to update cluster status''], updates = [fc']\<rparr>)"
  using assms by (simp add: Reconcile_def Let_def)

text \<open>
  Claim C8: when the status writer answers the update with a conflict, \<open>Reconcile\<close>
  returns a result that asks for a requeue and a nil error; when it answers with any
  other error, \<open>Reconcile\<close> logs "Failed to update cluster status" and returns the
  empty result and a nil error.
\<close>

theorem Reconcile_update_failure:
  assumes "GetFederatedCluster r req = Inr fc"
    and "NewClusterClientSet lib fc r (Second * 5) = (cc, None)"
    and "fst (GetClusterHealthStatus lib cc) = Some s"
    and "StatusUpdate r (fc\<lparr>FederatedCluster.Status := s\<rparr>) = Some ue"
  shows "\<exists>ret. Reconcile lib r req = Inr ret \<and>
           updates ret = [fc\<lparr>FederatedCluster.Status := s\<rparr>] \<and> err ret = None \<and>
           (if IsConflict ue then result ret = \<lparr>Requeue = True, RequeueAfter = 0\<rparr>
            else result ret = \<lparr>Requeue = False, RequeueAfter = 0\<rparr> \<and>
                 ''Failed to update cluster status'' \<in> set (logged ret))"
proof -
  obtain pe where "GetClusterHealthStatus lib cc = (Some s, pe)"
    using assms(3) by (cases "GetClusterHealthStatus lib cc") simp
  from Reconcile_reaches_update [OF assms(1) assms(2) this] assms(4)
  show ?thesis by (simp add: Let_def)
qed

text \<open>
  The theorem of C8 at a store that answers with a conflict and at one that answers
  with another error.
\<close>

theorem Reconcile_update_failure_witness:
  "Reconcile (exampleLibrary (Inr ''ok''))
       (exampleClient (exampleCluster ''https://10.0.0.1:6443'' []) (Some Conflict))
       exampleRequest =
     Inr \<lparr>result = \<lparr>Requeue = True, RequeueAfter = 0\<rparr>, err = None, logged = [],
          updates = [exampleCluster ''https://10.0.0.1:6443'' [exampleReady]]\<rparr> \<and>
   Reconcile (exampleLibrary (Inr ''ok''))
       (exampleClient (exampleCluster ''https://10.0.0.1:6443'' [])
          (Some (Failure ''etcdserver: request timed out'')))
       exampleRequest =
     Inr \<lparr>result = \<lparr>Requeue = False, RequeueAfter = 0\<rparr>, err = None,
          logged = [''Failed to update cluster status'', ''Success to update cluster status''],
          updates = [exampleCluster ''https://10.0.0.1:6443'' [exampleReady]]\<rparr>"
  using Reconcile_update_failure
          [of "exampleClient (exampleCluster ''https://10.0.0.1:6443'' []) (Some Conflict)"
              exampleRequest "exampleCluster ''https://10.0.0.1:6443'' []"
              "exampleLibrary (Inr ''ok'')"
              "\<lparr>kubeClient = Some (Clientset
                  \<lparr>Host = ''https://10.0.0.1:6443'', CAData = [], BearerToken = ''abc'',
                   QPS = 20, Burst = 30, Timeout = 5000000000\<rparr>), clusterName = ''member1''\<rparr>"
              "\<lparr>Conditions = [exampleReady]\<rparr>" Conflict]
        Reconcile_update_failure
          [of "exampleClient (exampleCluster ''https://10.0.0.1:6443'' [])
                 (Some (Failure ''etcdserver: request timed out''))"
              exampleRequest "exampleCluster ''https://10.0.0.1:6443'' []"
              "exampleLibrary (Inr ''ok'')"
              "\<lparr>kubeClient = Some (Clientset
                  \<lparr>Host = ''https://10.0.0.1:6443'', CAData = [], BearerToken = ''abc'',
                   QPS = 20, Burst = 30, Timeout = 5000000000\<rparr>), clusterName = ''member1''\<rparr>"
              "\<lparr>Conditions = [exampleReady]\<rparr>" "Failure ''etcdserver: request timed out''"]
  by (simp add: example_defs build_defs probe_defs Reconcile_def)

text \<open>
  Claim C2, as the code has it: when the construction of the client fails for the
  loaded cluster, \<open>Reconcile\<close> logs "Failed to generate new clusterset" and ends the
  pass there. It returns the empty result together with the construction error; no
  status is compared and nothing is handed to the status writer.
\<close>

theorem Reconcile_client_error:
  "GetFederatedCluster r req = Inr fc \<Longrightarrow>
   snd (NewClusterClientSet lib fc r (Second * 5)) = Some e \<Longrightarrow>
   Reconcile lib r req =
     Inr \<lparr>result = \<lparr>Requeue = False, RequeueAfter = 0\<rparr>, err = Some e,
          logged = [''Failed to generate new clusterset''], updates = []\<rparr>"
  by (cases "NewClusterClientSet lib fc r (Second * 5)") (simp add: Reconcile_def)

text \<open>
  The theorem of C2 at a library whose \<^verbatim>\<open>NewForConfig\<close> rejects the configuration.
\<close>

theorem Reconcile_client_error_witness:
  "Reconcile ((exampleLibrary (Inr ''ok''))\<lparr>NewForConfig := (\<lambda>config. Inl (Failure ''bad host''))\<rparr>)
       (exampleClient (exampleCluster ''::'' []) None) exampleRequest =
     Inr \<lparr>result = \<lparr>Requeue = False, RequeueAfter = 0\<rparr>, err = Some (Failure ''bad host''),
          logged = [''Failed to generate new clusterset''], updates = []\<rparr>"
  using Reconcile_client_error
          [of "exampleClient (exampleCluster ''::'' []) None" exampleRequest
              "exampleCluster ''::'' []"
              "(exampleLibrary (Inr ''ok''))\<lparr>NewForConfig := (\<lambda>config. Inl (Failure ''bad host''))\<rparr>"
              "Failure ''bad host''"]
  by (simp add: example_defs build_defs)

text \<open>
  Claim C2 as stated has the pass continue, persist a ConfigMalformed status and keep
  the construction error from the caller. For a cluster with an empty endpoint the pass
  returns the construction error and performs no status update.
\<close>

theorem Reconcile_malformed_returns_error:
  "Reconcile (exampleLibrary (Inr ''ok'')) (exampleClient (exampleCluster [] []) None)
       exampleRequest =
     Inr \<lparr>result = \<lparr>Requeue = False, RequeueAfter = 0\<rparr>,
          err = Some (Errorf ''The api endpoint of cluster member1 is empty''),
          logged = [''Failed to generate new clusterset''], updates = []\<rparr>"
  by (simp add: example_defs build_defs Reconcile_def)

text \<open>
  Claim C1 says that a pass whose new status equals the stored one performs no status
  write. Here the stored cluster already holds the status that the probe returns (the
  same single Ready condition with the same times), and \<open>Reconcile\<close> still hands the
  object to the status writer once.
\<close>

theorem Reconcile_writes_equal_status:
  "fst (GetClusterHealthStatus (exampleLibrary (Inr ''ok''))
          (fst (NewClusterClientSet (exampleLibrary (Inr ''ok''))
                  (exampleCluster ''https://10.0.0.1:6443'' [exampleReady])
                  (exampleClient (exampleCluster ''https://10.0.0.1:6443'' [exampleReady]) None)
                  (Second * 5)))) =
     Some (FederatedCluster.Status (exampleCluster ''https://10.0.0.1:6443'' [exampleReady])) \<and>
   Reconcile (exampleLibrary (Inr ''ok''))
       (exampleClient (exampleCluster ''https://10.0.0.1:6443'' [exampleReady]) None)
       exampleRequest =
     Inr \<lparr>result = \<lparr>Requeue = False, RequeueAfter = 0\<rparr>, err = None,
          logged = [''Success to update cluster status''],
          updates = [exampleCluster ''https://10.0.0.1:6443'' [exampleReady]]\<rparr>"
  by (simp add: example_defs build_defs probe_defs Reconcile_def)

end
